theory Spec2Isabelle
  imports Complex_Main "HOL-Library.AList" "HOL-Library.Sublist"
begin

section \<open>Real-time result distribution of the voting API (eVotingAPI/main.py)\<close>

text \<open>
  The development embeds the result-distribution part of \<^verbatim>\<open>src/eVotingAPI/main.py\<close>:
  the class \<^verbatim>\<open>ConnectionManager\<close>, the endpoint \<^verbatim>\<open>get_election_results\<close>, the
  per-connection loop \<^verbatim>\<open>websocket_results\<close> and the background task
  \<^verbatim>\<open>broadcast_results\<close>.

  What the Python code reaches outside itself is made explicit:
  \<^item> the smart contract (\<^verbatim>\<open>contract.functions.f(..).call()\<close>) is a record of replies,
    each either a value or the exception the call raises;
  \<^item> the socket write \<^verbatim>\<open>websocket.send_json\<close> is a function telling, for a handle and a
    message, whether the write raises;
  \<^item> \<^verbatim>\<open>datetime.now()\<close> is a reading supplied by the environment;
  \<^item> the two \<^verbatim>\<open>while\<close> loops run over a list of environments, one per iteration, so a
    loop that has not left after the whole list is reported as still running;
  \<^item> every call of \<^verbatim>\<open>get_election_results\<close> from a loop, every call of
    \<^verbatim>\<open>manager.broadcast\<close> from the background task, every socket write and every
    \<^verbatim>\<open>asyncio.sleep\<close> is recorded in a trace, in program order.
  The \<^verbatim>\<open>print\<close> calls are left out, and the contract gives the same replies throughout
  one loop iteration.

  The tasks share one event loop, and another task can run whenever a task is suspended
  in an \<^verbatim>\<open>await\<close>. This matters where \<^verbatim>\<open>broadcast\<close> iterates the dictionary of
  connections with an awaited write in the loop body: there the environment tells what
  another task does to the dictionary while a write is awaited, and the iteration reads
  the dictionary as it then is. Everywhere else the dictionary is only tested for
  membership and changed at one key, and the functions are run from call to return.
\<close>

subsection \<open>Python values, exceptions and strings\<close>

text \<open>A \<^verbatim>\<open>datetime\<close> is represented by its ISO-8601 text, which \<^verbatim>\<open>isoformat()\<close> returns.\<close>

datatype datetime = Datetime string

fun isoformat :: "datetime \<Rightarrow> string" where
  "isoformat (Datetime s) = s"

text \<open>The Python values that the contract returns and that are written to a socket.\<close>

datatype pyval =
    PNone
  | PBool bool
  | PInt int
  | PStr string
  | PDatetime datetime
  | PList "pyval list"
  | PDict "(string \<times> pyval) list"

text \<open>
  Exceptions, by the classes the \<^verbatim>\<open>except\<close> clauses of the source tell apart.
  \<open>HTTPException status_code detail\<close> is FastAPI's; the other constructors carry the
  text \<^verbatim>\<open>str(e)\<close> returns, and \<open>Exception\<close> stands for every other subclass of
  \<^verbatim>\<open>Exception\<close> (the contract's errors, \<^verbatim>\<open>IndexError\<close>, pydantic's validation error).
\<close>

datatype exn =
    HTTPException nat string
  | WebSocketDisconnect string
  | ConnectionClosedError string
  | Exception string

fun is_HTTPException :: "exn \<Rightarrow> bool" where
  "is_HTTPException (HTTPException _ _) = True"
| "is_HTTPException _ = False"

text \<open>\<^verbatim>\<open>str(n)\<close> of a Python integer: decimal digits, with a sign when negative.\<close>

fun digits :: "nat \<Rightarrow> string" where
  "digits n =
     (if n < 10 then [''0123456789'' ! n]
      else digits (n div 10) @ [''0123456789'' ! (n mod 10)])"

definition str_int :: "int \<Rightarrow> string" where
  "str_int i = (if i < 0 then CHR ''-'' # digits (nat (- i)) else digits (nat i))"

text \<open>
  \<^verbatim>\<open>str(e)\<close>. For an \<^verbatim>\<open>HTTPException\<close> it is Starlette's
  \<^verbatim>\<open>f"{self.status_code}: {self.detail}"\<close>.
\<close>

fun str_exn :: "exn \<Rightarrow> string" where
  "str_exn (HTTPException status_code detail) = digits status_code @ '': '' @ detail"
| "str_exn (WebSocketDisconnect s) = s"
| "str_exn (ConnectionClosedError s) = s"
| "str_exn (Exception s) = s"

text \<open>\<^verbatim>\<open>sub in s\<close> on strings: \<open>sub\<close> occurs in \<open>s\<close> as a contiguous piece.\<close>

primrec py_in :: "string \<Rightarrow> string \<Rightarrow> bool" where
  "py_in sub [] = (sub = [])"
| "py_in sub (c # cs) = (prefix sub (c # cs) \<or> py_in sub cs)"

text \<open>\<^verbatim>\<open>range(a, b)\<close>.\<close>

definition py_range :: "int \<Rightarrow> int \<Rightarrow> int list" where
  "py_range a b = [a..b - 1]"

text \<open>Running \<open>f\<close> on the value of \<open>m\<close> unless \<open>m\<close> raised.\<close>

definition try_bind :: "exn + 'a \<Rightarrow> ('a \<Rightarrow> exn + 'b) \<Rightarrow> exn + 'b" where
  "try_bind m f = (case m of Inl e \<Rightarrow> Inl e | Inr x \<Rightarrow> f x)"

text \<open>
  \<^verbatim>\<open>xs[i]\<close> on a sequence the contract returned; the reply is taken to be a Python list,
  which fixes the text of the \<^verbatim>\<open>IndexError\<close>.
\<close>

definition index :: "pyval list \<Rightarrow> nat \<Rightarrow> exn + pyval" where
  "index xs i = (if i < length xs then Inr (xs ! i) else Inl (Exception ''list index out of range''))"

subsection \<open>The pydantic models\<close>

record Election =
  id' :: int
  name :: string
  description :: string
  startTime :: int
  endTime :: int
  isActive :: bool
  creator :: string
  totalVotes :: int
  candidateCount :: int
  status :: "string option"

text \<open>
  The fields \<^verbatim>\<open>id\<close> and \<^verbatim>\<open>name\<close> of \<^verbatim>\<open>Candidate\<close> are \<open>cid\<close> and \<open>cname\<close> here, the
  names being taken by \<open>Election\<close>.
\<close>

record Candidate =
  cid :: int
  cname :: string
  party :: string
  voteCount :: int
  imageUrl :: string

record ElectionResults =
  election :: Election
  candidates :: "Candidate list"
  lastUpdate :: datetime

text \<open>
  Field validation of a model's constructor. The values come decoded by the contract's
  ABI (integers, strings, booleans); a value of another type is rejected, pydantic's
  coercions between types are not modelled, and its report is cut to a fixed text.
\<close>

fun as_int :: "pyval \<Rightarrow> exn + int" where
  "as_int (PInt i) = Inr i"
| "as_int _ = Inl (Exception ''validation error'')"

fun as_str :: "pyval \<Rightarrow> exn + string" where
  "as_str (PStr s) = Inr s"
| "as_str _ = Inl (Exception ''validation error'')"

fun as_bool :: "pyval \<Rightarrow> exn + bool" where
  "as_bool (PBool b) = Inr b"
| "as_bool _ = Inl (Exception ''validation error'')"

text \<open>\<^verbatim>\<open>Election(id=.., .., candidateCount=..)\<close>: the \<^verbatim>\<open>status\<close> field keeps its default.\<close>

definition Election_init ::
  "pyval \<Rightarrow> pyval \<Rightarrow> pyval \<Rightarrow> pyval \<Rightarrow> pyval \<Rightarrow> pyval \<Rightarrow> pyval \<Rightarrow> pyval \<Rightarrow> pyval \<Rightarrow> exn + Election" where
  "Election_init a0 a1 a2 a3 a4 a5 a6 a7 a8 =
     try_bind (as_int a0) (\<lambda>v0.
     try_bind (as_str a1) (\<lambda>v1.
     try_bind (as_str a2) (\<lambda>v2.
     try_bind (as_int a3) (\<lambda>v3.
     try_bind (as_int a4) (\<lambda>v4.
     try_bind (as_bool a5) (\<lambda>v5.
     try_bind (as_str a6) (\<lambda>v6.
     try_bind (as_int a7) (\<lambda>v7.
     try_bind (as_int a8) (\<lambda>v8.
       Inr \<lparr>id' = v0, name = v1, description = v2, startTime = v3, endTime = v4,
            isActive = v5, creator = v6, totalVotes = v7, candidateCount = v8,
            status = None\<rparr>)))))))))"

definition Candidate_init :: "pyval \<Rightarrow> pyval \<Rightarrow> pyval \<Rightarrow> pyval \<Rightarrow> pyval \<Rightarrow> exn + Candidate" where
  "Candidate_init a0 a1 a2 a3 a4 =
     try_bind (as_int a0) (\<lambda>v0.
     try_bind (as_str a1) (\<lambda>v1.
     try_bind (as_str a2) (\<lambda>v2.
     try_bind (as_int a3) (\<lambda>v3.
     try_bind (as_str a4) (\<lambda>v4.
       Inr \<lparr>cid = v0, cname = v1, party = v2, voteCount = v3, imageUrl = v4\<rparr>)))))"

text \<open>\<^verbatim>\<open>.dict()\<close> of the three models, keys in field order.\<close>

definition Election_dict :: "Election \<Rightarrow> pyval" where
  "Election_dict e =
     PDict [(''id'', PInt (id' e)), (''name'', PStr (name e)),
            (''description'', PStr (description e)), (''startTime'', PInt (startTime e)),
            (''endTime'', PInt (endTime e)), (''isActive'', PBool (isActive e)),
            (''creator'', PStr (creator e)), (''totalVotes'', PInt (totalVotes e)),
            (''candidateCount'', PInt (candidateCount e)),
            (''status'', (case status e of None \<Rightarrow> PNone | Some s \<Rightarrow> PStr s))]"

definition Candidate_dict :: "Candidate \<Rightarrow> pyval" where
  "Candidate_dict c =
     PDict [(''id'', PInt (cid c)), (''name'', PStr (cname c)), (''party'', PStr (party c)),
            (''voteCount'', PInt (voteCount c)), (''imageUrl'', PStr (imageUrl c))]"

definition ElectionResults_dict :: "ElectionResults \<Rightarrow> (string \<times> pyval) list" where
  "ElectionResults_dict r =
     [(''election'', Election_dict (election r)),
      (''candidates'', PList (map Candidate_dict (candidates r))),
      (''lastUpdate'', PDatetime (lastUpdate r))]"

subsection \<open>The environment: contract, socket writes, clock\<close>

text \<open>
  The replies of the contract's read functions. \<open>getElectionStatus\<close> is read by the
  endpoints \<^verbatim>\<open>get_elections\<close> and \<^verbatim>\<open>get_election\<close>.
\<close>

record ledger =
  electionCount :: "exn + int"
  getElection :: "int \<Rightarrow> exn + pyval list"
  getElectionStatus :: "int \<Rightarrow> exn + string"
  getElectionResults :: "int \<Rightarrow> exn + pyval list list"

type_synonym WebSocket = nat

text \<open>
  What a session task can do to the dictionary of connections: \<open>Connects ws\<close> is the
  assignment \<^verbatim>\<open>self.active_connections[websocket] = True\<close> of \<^verbatim>\<open>connect\<close>, and
  \<open>Disconnects ws\<close> is a call of \<^verbatim>\<open>disconnect\<close>, as the \<^verbatim>\<open>finally\<close> clause of a
  session makes.
\<close>

datatype action = Connects WebSocket | Disconnects WebSocket

text \<open>
  \<open>contract\<close> is the module's global (\<open>None\<close> when \<^verbatim>\<open>load_contract\<close> failed);
  \<open>send_json ws message\<close> is \<open>None\<close> when the write returns and the exception otherwise;
  \<open>other_tasks ws message\<close> is what another task does to the dictionary of connections
  while \<^verbatim>\<open>broadcast\<close> awaits the write of \<open>message\<close> to \<open>ws\<close> (at most one change per
  awaited write, \<open>None\<close> for no change);
  \<open>now\<close> is what \<^verbatim>\<open>datetime.now()\<close> reads.
\<close>

record env =
  contract :: "ledger option"
  send_json :: "WebSocket \<Rightarrow> pyval \<Rightarrow> exn option"
  other_tasks :: "WebSocket \<Rightarrow> pyval \<Rightarrow> action option"
  now :: datetime

subsection \<open>State and trace\<close>

text \<open>
  What the program does that an observer can see, in program order: a call of
  \<^verbatim>\<open>get_election_results\<close> made by one of the two loops, a call of
  \<^verbatim>\<open>manager.broadcast\<close> made by the background task, a socket write with its outcome
  (\<open>None\<close>: written), and a sleep with its length.
\<close>

datatype event =
    Fetch int
  | Broadcast pyval
  | SendJson WebSocket pyval "exn option"
  | Sleep rat

text \<open>
  \<open>active_connections\<close> is the dictionary of the \<^verbatim>\<open>ConnectionManager\<close>, in insertion
  order; \<open>trace\<close> is the list of events so far.
\<close>

record state =
  active_connections :: "(WebSocket \<times> bool) list"
  trace :: "event list"

definition record_event :: "event \<Rightarrow> state \<Rightarrow> state" where
  "record_event ev s = s\<lparr>trace := trace s @ [ev]\<rparr>"

primrec fetches :: "event list \<Rightarrow> int list" where
  "fetches [] = []"
| "fetches (ev # evs) = (case ev of Fetch i \<Rightarrow> i # fetches evs | _ \<Rightarrow> fetches evs)"

primrec broadcasts :: "event list \<Rightarrow> pyval list" where
  "broadcasts [] = []"
| "broadcasts (ev # evs) = (case ev of Broadcast m \<Rightarrow> m # broadcasts evs | _ \<Rightarrow> broadcasts evs)"

primrec sleeps :: "event list \<Rightarrow> rat list" where
  "sleeps [] = []"
| "sleeps (ev # evs) = (case ev of Sleep d \<Rightarrow> d # sleeps evs | _ \<Rightarrow> sleeps evs)"

primrec writes :: "event list \<Rightarrow> (WebSocket \<times> pyval \<times> exn option) list" where
  "writes [] = []"
| "writes (ev # evs) =
     (case ev of SendJson ws m r \<Rightarrow> (ws, m, r) # writes evs | _ \<Rightarrow> writes evs)"

subsection \<open>ConnectionManager\<close>

text \<open>\<open>accept\<close> is what \<^verbatim>\<open>websocket.accept()\<close> does: \<open>None\<close> when it returns.\<close>

definition connect :: "exn option \<Rightarrow> WebSocket \<Rightarrow> state \<Rightarrow> exn + state" where
  "connect accept websocket s =
     (case accept of
        Some e \<Rightarrow> Inl e
      | None \<Rightarrow>
          Inr (s\<lparr>active_connections := AList.update websocket True (active_connections s)\<rparr>))"

definition disconnect :: "WebSocket \<Rightarrow> state \<Rightarrow> state" where
  "disconnect websocket s =
     (if websocket \<in> fst ` set (active_connections s)
      then s\<lparr>active_connections := AList.delete websocket (active_connections s)\<rparr>
      else s)"

definition send_personal_message :: "env \<Rightarrow> pyval \<Rightarrow> WebSocket \<Rightarrow> state \<Rightarrow> state" where
  "send_personal_message env message websocket s =
     (if websocket \<in> fst ` set (active_connections s)
         \<and> map_of (active_connections s) websocket = Some True
      then (case send_json env websocket message of
              None \<Rightarrow> record_event (SendJson websocket message None) s
            | Some e \<Rightarrow> disconnect websocket (record_event (SendJson websocket message (Some e)) s))
      else s)"

text \<open>The change another task makes to the dictionary while a write is awaited.\<close>

fun other_task_step :: "action option \<Rightarrow> state \<Rightarrow> state" where
  "other_task_step None s = s"
| "other_task_step (Some (Connects ws)) s =
     s\<lparr>active_connections := AList.update ws True (active_connections s)\<rparr>"
| "other_task_step (Some (Disconnects ws)) s = disconnect ws s"

text \<open>
  The first loop of \<^verbatim>\<open>broadcast\<close>, \<^verbatim>\<open>for websocket in self.active_connections\<close>. It
  iterates the dictionary itself, not a copy: the iterator keeps the size \<open>used\<close> the
  dictionary had when the loop was entered and the position \<open>pos\<close> of the next key. Each
  time the loop asks for the next key, the iterator first compares the size of the
  dictionary as it is now with \<open>used\<close> and raises \<^verbatim>\<open>RuntimeError\<close> when they differ; the
  \<^verbatim>\<open>for\<close> header is outside the \<^verbatim>\<open>try\<close> of the body, so the exception leaves the loop.
  Otherwise the loop ends when all keys were read, or takes the key at \<open>pos\<close>, awaits the
  write, during which another task may change the dictionary, and collects the handle in
  \<open>disconnected\<close> when the write raised. A change that keeps the size (a registration of
  a handle already registered, a removal of an absent one) keeps the keys and their order.
\<close>

function broadcast_loop ::
  "env \<Rightarrow> pyval \<Rightarrow> nat \<Rightarrow> nat \<Rightarrow> WebSocket list \<Rightarrow> state
     \<Rightarrow> (exn + WebSocket list) \<times> state" where
  "broadcast_loop env message used pos disconnected s =
     (if length (active_connections s) \<noteq> used
      then (Inl (Exception ''dictionary changed size during iteration''), s)
      else if used \<le> pos then (Inr disconnected, s)
      else
        (let websocket = fst (active_connections s ! pos);
             r = send_json env websocket message;
             s1 = other_task_step (other_tasks env websocket message)
                    (record_event (SendJson websocket message r) s)
         in broadcast_loop env message used (Suc pos)
              (case r of None \<Rightarrow> disconnected | Some e \<Rightarrow> disconnected @ [websocket]) s1))"
  by pat_completeness auto
termination
  by (relation "measure (\<lambda>(env, message, used, pos, disconnected, s). used - pos)") auto

text \<open>
  \<^verbatim>\<open>broadcast\<close>: the first loop and, when it ended without an exception, the second
  loop, which removes the collected handles. The result tells whether the call raised.
\<close>

definition broadcast :: "env \<Rightarrow> pyval \<Rightarrow> state \<Rightarrow> exn option \<times> state" where
  "broadcast env message s =
     (case broadcast_loop env message (length (active_connections s)) 0 [] s of
        (Inl e, s1) \<Rightarrow> (Some e, s1)
      | (Inr disconnected, s1) \<Rightarrow> (None, fold disconnect disconnected s1))"

subsection \<open>get\_election\_results\<close>

text \<open>\<^verbatim>\<open>Candidate(id=candidate[0], .., imageUrl=candidate[4] if len(candidate) > 4 else "")\<close>.\<close>

definition Candidate_of :: "pyval list \<Rightarrow> exn + Candidate" where
  "Candidate_of candidate =
     try_bind (index candidate 0) (\<lambda>a0.
     try_bind (index candidate 1) (\<lambda>a1.
     try_bind (index candidate 2) (\<lambda>a2.
     try_bind (index candidate 3) (\<lambda>a3.
       Candidate_init a0 a1 a2 a3
         (if length candidate > 4 then candidate ! 4 else PStr '''')))))"

text \<open>
  The \<^verbatim>\<open>for candidate in results_data\<close> loop inside the inner \<^verbatim>\<open>try\<close>: a candidate
  that cannot be built ends the loop, and the candidates appended before it stay.
\<close>

fun append_candidates :: "pyval list list \<Rightarrow> Candidate list" where
  "append_candidates [] = []"
| "append_candidates (candidate # rest) =
     (case Candidate_of candidate of
        Inl e \<Rightarrow> []
      | Inr c \<Rightarrow> c # append_candidates rest)"

text \<open>\<^verbatim>\<open>Election(id=election_data[0], .., candidateCount=election_data[8] if .. else 0)\<close>.\<close>

definition Election_of :: "pyval list \<Rightarrow> exn + Election" where
  "Election_of election_data =
     try_bind (index election_data 0) (\<lambda>a0.
     try_bind (index election_data 1) (\<lambda>a1.
     try_bind (index election_data 2) (\<lambda>a2.
     try_bind (index election_data 3) (\<lambda>a3.
     try_bind (index election_data 4) (\<lambda>a4.
     try_bind (index election_data 5) (\<lambda>a5.
     try_bind (index election_data 6) (\<lambda>a6.
       Election_init a0 a1 a2 a3 a4 a5 a6
         (if length election_data > 7 then election_data ! 7 else PInt 0)
         (if length election_data > 8 then election_data ! 8 else PInt 0))))))))"

text \<open>The body of the outer \<^verbatim>\<open>try\<close>.\<close>

definition get_election_results_try :: "env \<Rightarrow> int \<Rightarrow> exn + ElectionResults" where
  "get_election_results_try env election_id =
     (case contract env of
        None \<Rightarrow> Inl (HTTPException 503 ''Smart contract not loaded'')
      | Some c \<Rightarrow>
          try_bind (electionCount c) (\<lambda>election_count.
            if election_id < 1 \<or> election_id > election_count
            then Inl (HTTPException 404 (''Election '' @ str_int election_id @ '' does not exist''))
            else
              try_bind (getElection c election_id) (\<lambda>election_data.
                let candidates =
                      (case getElectionResults c election_id of
                         Inl e \<Rightarrow> []
                       | Inr results_data \<Rightarrow> append_candidates results_data)
                in try_bind (Election_of election_data) (\<lambda>election.
                     Inr \<lparr>election = election, candidates = candidates,
                          lastUpdate = now env\<rparr>))))"

text \<open>
  The endpoint. \<open>Inl (HTTPException 404 _)\<close> is the outcome the specification calls
  NotFound, \<open>Inl (HTTPException 500 _)\<close> is TransientError; a returned value is Ok, or
  EmptyState when its candidate list is empty.
\<close>

definition get_election_results :: "env \<Rightarrow> int \<Rightarrow> exn + ElectionResults" where
  "get_election_results env election_id =
     (case get_election_results_try env election_id of
        Inr r \<Rightarrow> Inr r
      | Inl e \<Rightarrow>
          if is_HTTPException e then Inl e
          else if py_in ''underflow or overflow'' (str_exn e)
          then Inr \<lparr>election =
                      \<lparr>id' = election_id, name = ''Election'', description = '''',
                       startTime = 0, endTime = 0, isActive = False, creator = '''',
                       totalVotes = 0, candidateCount = 0, status = None\<rparr>,
                    candidates = [], lastUpdate = now env\<rparr>
          else Inl (HTTPException 500 (str_exn e)))"

subsection \<open>websocket\_results\<close>

text \<open>
  \<^verbatim>\<open>results.dict()\<close> with the \<^verbatim>\<open>lastUpdate\<close> entry replaced by its ISO text.
\<close>

definition results_dict :: "ElectionResults \<Rightarrow> (string \<times> pyval) list" where
  "results_dict results =
     (let d = ElectionResults_dict results
      in if ''lastUpdate'' \<in> fst ` set d
         then AList.update ''lastUpdate'' (PStr (isoformat (lastUpdate results))) d
         else d)"

definition empty_result :: "int \<Rightarrow> datetime \<Rightarrow> pyval" where
  "empty_result election_id t =
     PDict [(''election'',
             PDict [(''id'', PInt election_id), (''name'', PStr ''Loading...''),
                    (''description'', PStr ''''), (''startTime'', PInt 0),
                    (''endTime'', PInt 0), (''isActive'', PBool False),
                    (''creator'', PStr ''''), (''totalVotes'', PInt 0),
                    (''candidateCount'', PInt 0)]),
            (''candidates'', PList []),
            (''lastUpdate'', PStr (isoformat t)),
            (''info'', PStr ''No candidates registered yet'')]"

definition error_msg_not_exist :: "int \<Rightarrow> pyval" where
  "error_msg_not_exist election_id =
     PDict [(''error'', PStr (''Election '' @ str_int election_id @ '' does not exist'')),
            (''electionId'', PInt election_id)]"

definition error_msg_not_loaded :: "int \<Rightarrow> pyval" where
  "error_msg_not_loaded election_id =
     PDict [(''error'', PStr ''Contract not loaded''), (''electionId'', PInt election_id)]"

text \<open>
  How one pass through the body of \<^verbatim>\<open>while connection_alive\<close> ends: \<open>Next\<close> falls
  through to the sleep, \<open>Break alive\<close> leaves the loop with \<^verbatim>\<open>connection_alive\<close>
  being \<open>alive\<close>.
\<close>

datatype control = Next | Break bool

definition session_iteration :: "env \<Rightarrow> WebSocket \<Rightarrow> int \<Rightarrow> state \<Rightarrow> control \<times> state" where
  "session_iteration env websocket election_id s =
     (if websocket \<notin> fst ` set (active_connections s) then (Break True, s)
      else
        (case contract env of
           None \<Rightarrow>
             (Next, send_personal_message env (error_msg_not_loaded election_id) websocket s)
         | Some c \<Rightarrow>
             (case electionCount c of
                Inl e \<Rightarrow> (Break False, s)
              | Inr election_count \<Rightarrow>
                  if election_id > 0 \<and> election_id \<le> election_count
                  then
                    (let s1 = record_event (Fetch election_id) s
                     in case get_election_results env election_id of
                          Inr results \<Rightarrow>
                            (Next, send_personal_message env (PDict (results_dict results))
                                     websocket s1)
                        | Inl e \<Rightarrow>
                            if py_in ''underflow or overflow'' (str_exn e)
                            then (Next, send_personal_message env
                                          (empty_result election_id (now env)) websocket s1)
                            else (Next, s1))
                  else
                    (Break False,
                     send_personal_message env (error_msg_not_exist election_id)
                       websocket s))))"

text \<open>
  What a run of the endpoint has come to: \<open>Raised e\<close> when \<^verbatim>\<open>accept\<close> raised,
  \<open>Running\<close> when the loop is still going after the last environment supplied, and
  \<open>Exited alive\<close> when the loop was left, with the last value of \<^verbatim>\<open>connection_alive\<close>.
\<close>

datatype outcome = Raised exn | Running | Exited bool

fun session_loop ::
  "env list \<Rightarrow> WebSocket \<Rightarrow> int \<Rightarrow> bool \<Rightarrow> state \<Rightarrow> outcome \<times> state" where
  "session_loop envs websocket election_id connection_alive s =
     (if \<not> connection_alive then (Exited connection_alive, s)
      else
        (case envs of
           [] \<Rightarrow> (Running, s)
         | env # rest \<Rightarrow>
             (case session_iteration env websocket election_id s of
                (Break alive, s1) \<Rightarrow> (Exited alive, s1)
              | (Next, s1) \<Rightarrow>
                  session_loop rest websocket election_id connection_alive
                    (record_event (Sleep (5 / 2)) s1))))"

text \<open>
  The endpoint: \<^verbatim>\<open>connect\<close>, the loop, and the \<^verbatim>\<open>finally\<close> clause, which runs once
  the loop is left.
\<close>

definition websocket_results ::
  "exn option \<Rightarrow> env list \<Rightarrow> WebSocket \<Rightarrow> int \<Rightarrow> state \<Rightarrow> outcome \<times> state" where
  "websocket_results accept envs websocket election_id s =
     (case connect accept websocket s of
        Inl e \<Rightarrow> (Raised e, s)
      | Inr s0 \<Rightarrow>
          (case session_loop envs websocket election_id True s0 of
             (Exited alive, s1) \<Rightarrow> (Exited alive, disconnect websocket s1)
           | (out, s1) \<Rightarrow> (out, s1)))"

subsection \<open>broadcast\_results\<close>

text \<open>
  The body of \<^verbatim>\<open>for election_id in range(1, min(election_count + 1, 10))\<close>. Its
  \<^verbatim>\<open>except Exception\<close> clause also takes an exception raised by \<^verbatim>\<open>broadcast\<close>, so only
  the state that \<^verbatim>\<open>broadcast\<close> leaves goes on.
\<close>

definition broadcast_election :: "env \<Rightarrow> int \<Rightarrow> state \<Rightarrow> state" where
  "broadcast_election env election_id s =
     (let s1 = record_event (Fetch election_id) s
      in case get_election_results env election_id of
           Inl e \<Rightarrow> s1
         | Inr results \<Rightarrow>
             (let message = PDict [(''electionId'', PInt election_id),
                                   (''results'', PDict (results_dict results))]
              in snd (broadcast env message (record_event (Broadcast message) s1))))"

text \<open>One pass through the body of \<^verbatim>\<open>while True\<close>.\<close>

definition broadcast_results_cycle :: "env \<Rightarrow> state \<Rightarrow> state" where
  "broadcast_results_cycle env s =
     (case contract env of
        None \<Rightarrow> record_event (Sleep 5) s
      | Some c \<Rightarrow>
          record_event (Sleep 3)
            (case electionCount c of
               Inl e \<Rightarrow> s
             | Inr election_count \<Rightarrow>
                 if election_count > 0
                 then fold (broadcast_election env)
                        (py_range 1 (min (election_count + 1) 10)) s
                 else s))"

text \<open>The task after one cycle per environment supplied; it never returns.\<close>

definition broadcast_results :: "env list \<Rightarrow> state \<Rightarrow> state" where
  "broadcast_results envs s = fold broadcast_results_cycle envs s"

subsection \<open>Notions used to state the properties\<close>

text \<open>
  The contract is loaded, its election count can be read, and the election id lies in
  \<open>[1, count]\<close>.
\<close>

definition election_in_range :: "env \<Rightarrow> int \<Rightarrow> bool" where
  "election_in_range env election_id =
     (case contract env of
        None \<Rightarrow> False
      | Some c \<Rightarrow>
          (case electionCount c of
             Inl e \<Rightarrow> False
           | Inr election_count \<Rightarrow> 1 \<le> election_id \<and> election_id \<le> election_count))"

text \<open>
  The messages the background task hands to \<^verbatim>\<open>manager.broadcast\<close> for one election:
  none when the fetch raised, one when it returned.
\<close>

definition broadcast_message :: "env \<Rightarrow> int \<Rightarrow> pyval list" where
  "broadcast_message env election_id =
     (case get_election_results env election_id of
        Inl e \<Rightarrow> []
      | Inr results \<Rightarrow>
          [PDict [(''electionId'', PInt election_id),
                  (''results'', PDict (results_dict results))]])"

subsection \<open>An example environment\<close>

text \<open>
  A contract with two elections. Election 1 has no candidate yet, and reading its
  candidate list fails with the arithmetic fault of an empty array; election 2 cannot be
  read at all. Every socket write succeeds, and no other task touches the dictionary of
  connections during a broadcast.
\<close>

definition example_ledger :: ledger where
  "example_ledger =
     \<lparr>electionCount = Inr 2,
      getElection = (\<lambda>i. if i = 1
         then Inr [PInt 1, PStr ''Board'', PStr ''Board election'', PInt 100, PInt 200,
                   PBool True, PStr ''0xA1'', PInt 0, PInt 0]
         else Inl (Exception ''execution reverted'')),
      getElectionStatus = (\<lambda>i. Inr ''Active''),
      getElectionResults = (\<lambda>i. Inl (Exception
         ''Panic error 0x11: Arithmetic operation results in underflow or overflow.''))\<rparr>"

definition example_env :: env where
  "example_env =
     \<lparr>contract = Some example_ledger, send_json = (\<lambda>ws message. None),
      other_tasks = (\<lambda>ws message. None), now = Datetime ''2024-05-01T12:00:00''\<rparr>"

definition example_election :: Election where
  "example_election =
     \<lparr>id' = 1, name = ''Board'', description = ''Board election'', startTime = 100,
      endTime = 200, isActive = True, creator = ''0xA1'', totalVotes = 0,
      candidateCount = 0, status = None\<rparr>"

section \<open>Properties\<close>

declare session_loop.simps [simp del]

declare broadcast_loop.simps [simp del]

subsection \<open>Traces\<close>

lemma fetches_append: "fetches (xs @ ys) = fetches xs @ fetches ys"
  by (induction xs) (auto split: event.splits)

lemma broadcasts_append: "broadcasts (xs @ ys) = broadcasts xs @ broadcasts ys"
  by (induction xs) (auto split: event.splits)

lemma sleeps_append: "sleeps (xs @ ys) = sleeps xs @ sleeps ys"
  by (induction xs) (auto split: event.splits)

lemma writes_append: "writes (xs @ ys) = writes xs @ writes ys"
  by (induction xs) (auto split: event.splits)

lemma record_event_simps:
  "trace (record_event ev s) = trace s @ [ev]"
  "active_connections (record_event ev s) = active_connections s"
  by (simp_all add: record_event_def)

subsection \<open>The registry\<close>

lemma keys_delete: "fst ` set (AList.delete k al) = fst ` set al - {k}"
  by (auto simp: AList.delete_eq image_iff)

lemma registered_key:
  "map_of (active_connections s) websocket = Some True \<Longrightarrow>
     websocket \<in> fst ` set (active_connections s)"
  by (metis domI dom_map_of_conv_image_fst)

lemma disconnect_absent:
  "websocket \<notin> fst ` set (active_connections s) \<Longrightarrow> disconnect websocket s = s"
  by (simp add: disconnect_def)

lemma disconnect_eq:
  "disconnect websocket s =
     s\<lparr>active_connections := AList.delete websocket (active_connections s)\<rparr>"
  by (simp add: disconnect_def)

lemma disconnect_keys:
  "fst ` set (active_connections (disconnect websocket s)) =
     fst ` set (active_connections s) - {websocket}"
  by (simp add: disconnect_eq keys_delete)

lemma disconnect_trace: "trace (disconnect websocket s) = trace s"
  by (simp add: disconnect_def)

lemma disconnect_connections:
  "active_connections (disconnect websocket s) =
     filter (\<lambda>p. fst p \<noteq> websocket) (active_connections s)"
  by (simp add: disconnect_eq AList.delete_eq case_prod_unfold eq_commute)

lemma fold_disconnect_trace: "trace (fold disconnect ds s) = trace s"
  by (induction ds arbitrary: s) (auto simp: disconnect_trace)

lemma fold_disconnect_connections:
  "active_connections (fold disconnect ds s) =
     filter (\<lambda>p. fst p \<notin> set ds) (active_connections s)"
  by (induction ds arbitrary: s) (auto simp: disconnect_connections intro: filter_cong)

text \<open>
  A message for a registered handle is written exactly once. When the write raises, the
  handle is dropped at once, so deleting it afterwards gives the same registry either way.
\<close>

lemma send_personal_message_registered:
  assumes "map_of (active_connections s) websocket = Some True"
  shows "trace (send_personal_message env message websocket s) =
           trace s @ [SendJson websocket message (send_json env websocket message)]"
    and "AList.delete websocket
           (active_connections (send_personal_message env message websocket s)) =
         AList.delete websocket (active_connections s)"
proof -
  note k = registered_key[OF assms]
  show "trace (send_personal_message env message websocket s) =
           trace s @ [SendJson websocket message (send_json env websocket message)]"
    using assms k
    by (auto simp: send_personal_message_def record_event_def disconnect_def
        split: option.splits)
  show "AList.delete websocket
           (active_connections (send_personal_message env message websocket s)) =
         AList.delete websocket (active_connections s)"
    using assms k
    by (auto simp: send_personal_message_def record_event_def disconnect_def delete_idem
        split: option.splits)
qed

lemma other_task_step_trace: "trace (other_task_step a s) = trace s"
  by (cases "(a, s)" rule: other_task_step.cases) (simp_all add: disconnect_trace)

text \<open>Whatever the schedule, \<^verbatim>\<open>broadcast\<close> adds nothing but socket writes to the trace.\<close>

lemma broadcast_loop_fetches:
  "fetches (trace (snd (broadcast_loop env message used pos d s))) = fetches (trace s)"
proof (induction env message used pos d s rule: broadcast_loop.induct)
  case (1 env message used pos d s)
  show ?case
  proof (cases "length (active_connections s) \<noteq> used \<or> used \<le> pos")
    case True
    then show ?thesis by (auto simp: broadcast_loop.simps[of env message used pos d s])
  next
    case False
    with "1.IH"[OF _ _ refl refl refl] show ?thesis
      by (simp add: broadcast_loop.simps[of env message used pos d s] Let_def
          other_task_step_trace record_event_simps fetches_append)
  qed
qed

lemma broadcast_loop_broadcasts:
  "broadcasts (trace (snd (broadcast_loop env message used pos d s))) = broadcasts (trace s)"
proof (induction env message used pos d s rule: broadcast_loop.induct)
  case (1 env message used pos d s)
  show ?case
  proof (cases "length (active_connections s) \<noteq> used \<or> used \<le> pos")
    case True
    then show ?thesis by (auto simp: broadcast_loop.simps[of env message used pos d s])
  next
    case False
    with "1.IH"[OF _ _ refl refl refl] show ?thesis
      by (simp add: broadcast_loop.simps[of env message used pos d s] Let_def
          other_task_step_trace record_event_simps broadcasts_append)
  qed
qed

lemma broadcast_fetches:
  "fetches (trace (snd (broadcast env message s))) = fetches (trace s)"
  using broadcast_loop_fetches[of env message "length (active_connections s)" 0 "[]" s]
  by (auto simp: broadcast_def fold_disconnect_trace split: prod.splits sum.splits)

lemma broadcast_broadcasts:
  "broadcasts (trace (snd (broadcast env message s))) = broadcasts (trace s)"
  using broadcast_loop_broadcasts[of env message "length (active_connections s)" 0 "[]" s]
  by (auto simp: broadcast_def fold_disconnect_trace split: prod.splits sum.splits)

text \<open>
  When no other task changes the dictionary while a write is awaited, the first loop
  writes to every key from \<open>pos\<close> on, in order, and collects those whose write raised.
\<close>

lemma broadcast_loop_undisturbed:
  assumes "\<forall>h. other_tasks env h message = None"
    and "length (active_connections s) = used"
  shows "broadcast_loop env message used pos d s =
     (Inr (d @ filter (\<lambda>h. send_json env h message \<noteq> None)
                  (drop pos (map fst (active_connections s)))),
      s\<lparr>trace := trace s @ map (\<lambda>h. SendJson h message (send_json env h message))
                              (drop pos (map fst (active_connections s)))\<rparr>)"
  using assms
proof (induction env message used pos d s rule: broadcast_loop.induct)
  case (1 env message used pos d s)
  show ?case
  proof (cases "used \<le> pos")
    case True
    with "1.prems" show ?thesis
      by (simp add: broadcast_loop.simps[of env message used pos d s])
  next
    case False
    let ?ws = "fst (active_connections s ! pos)"
    let ?r = "send_json env ?ws message"
    let ?s1 = "record_event (SendJson ?ws message ?r) s"
    from False "1.prems"(2) have lt: "pos < length (map fst (active_connections s))"
      by simp
    have dr: "drop pos (map fst (active_connections s)) =
        ?ws # drop (Suc pos) (map fst (active_connections s))"
      using Cons_nth_drop_Suc[OF lt] lt by simp
    have ne: "\<not> length (active_connections s) \<noteq> used"
      using "1.prems"(2) by simp
    have s1: "other_task_step (other_tasks env ?ws message) ?s1 = ?s1"
      using "1.prems"(1) by simp
    have len: "length (active_connections ?s1) = used"
      using "1.prems"(2) by (simp add: record_event_simps)
    note ih = "1.IH"[OF ne False refl refl refl, unfolded s1, OF "1.prems"(1) len]
    have "broadcast_loop env message used pos d s =
        broadcast_loop env message used (Suc pos)
          (case ?r of None \<Rightarrow> d | Some e \<Rightarrow> d @ [?ws]) ?s1"
      using ne False by (subst broadcast_loop.simps) (simp add: Let_def s1)
    then show ?thesis
      unfolding ih dr by (cases ?r) (simp_all add: record_event_def)
  qed
qed

text \<open>
  So an undisturbed call of \<^verbatim>\<open>broadcast\<close> returns, has written once to every handle
  registered at the call, in the order of the dictionary and also after a write that
  raised, and leaves the registry without the handles whose write raised.
\<close>

lemma broadcast_undisturbed:
  assumes "\<forall>h. other_tasks env h message = None"
  shows "broadcast env message s =
     (None,
      \<lparr>active_connections =
         filter (\<lambda>p. send_json env (fst p) message = None) (active_connections s),
       trace = trace s @ map (\<lambda>h. SendJson h message (send_json env h message))
                           (map fst (active_connections s))\<rparr>)"
proof -
  have "fold disconnect ds t =
      \<lparr>active_connections = filter (\<lambda>p. fst p \<notin> set ds) (active_connections t),
       trace = trace t\<rparr>" for ds t
    by (rule state.equality) (simp_all add: fold_disconnect_connections fold_disconnect_trace)
  then show ?thesis
    by (auto simp: broadcast_def broadcast_loop_undisturbed[OF assms refl] intro!: filter_cong)
qed

subsection \<open>The fetcher\<close>

text \<open>A reply of nine values of the ABI's types fills the nine fields, in order.\<close>

lemma Election_of_fields:
  "Election_of [PInt i, PStr n, PStr d, PInt st, PInt en, PBool a, PStr cr, PInt tv, PInt cc] =
     Inr \<lparr>id' = i, name = n, description = d, startTime = st, endTime = en, isActive = a,
          creator = cr, totalVotes = tv, candidateCount = cc, status = None\<rparr>"
  by (simp add: Election_of_def Election_init_def index_def try_bind_def)

lemma example_Election_of:
  "Election_of [PInt 1, PStr ''Board'', PStr ''Board election'', PInt 100, PInt 200,
                PBool True, PStr ''0xA1'', PInt 0, PInt 0] = Inr example_election"
  by (simp add: Election_of_fields example_election_def)

lemma example_env_simps:
  "contract example_env = Some example_ledger"
  "send_json example_env = (\<lambda>ws message. None)"
  "now example_env = Datetime ''2024-05-01T12:00:00''"
  by (simp_all add: example_env_def)



lemma get_election_results_not_found:
  assumes "contract env = Some c" "electionCount c = Inr election_count"
    "election_id < 1 \<or> election_count < election_id"
  shows "get_election_results env election_id =
     Inl (HTTPException 404 (''Election '' @ str_int election_id @ '' does not exist''))"
  using assms
  by (auto simp: get_election_results_def get_election_results_try_def try_bind_def)

text \<open>
  When the candidate list cannot be read, the inner handler swallows the exception
  whatever its text, and the election that was read is returned with no candidate.
\<close>

lemma fetch_candidates_fail:
  assumes "contract env = Some c" "electionCount c = Inr election_count"
    "1 \<le> election_id" "election_id \<le> election_count"
    "getElection c election_id = Inr election_data"
    "Election_of election_data = Inr e"
    "getElectionResults c election_id = Inl err"
  shows "get_election_results env election_id =
           Inr \<lparr>election = e, candidates = [], lastUpdate = now env\<rparr>"
  using assms
  by (simp add: get_election_results_def get_election_results_try_def try_bind_def)

lemma results_dict_empty:
  "results_dict \<lparr>election = e, candidates = [], lastUpdate = t\<rparr> =
     [(''election'', Election_dict e), (''candidates'', PList []),
      (''lastUpdate'', PStr (isoformat t))]"
  by (simp add: results_dict_def ElectionResults_dict_def)

subsection \<open>The background cycle\<close>

lemma broadcast_election_fetches:
  "fetches (trace (broadcast_election env election_id s)) = fetches (trace s) @ [election_id]"
  by (simp add: broadcast_election_def Let_def broadcast_fetches record_event_simps
      fetches_append split: sum.splits)

lemma broadcast_election_broadcasts:
  "broadcasts (trace (broadcast_election env election_id s)) =
     broadcasts (trace s) @ broadcast_message env election_id"
  by (simp add: broadcast_election_def Let_def broadcast_broadcasts record_event_simps
      broadcasts_append broadcast_message_def split: sum.splits)

lemma fold_broadcast_election_fetches:
  "fetches (trace (fold (broadcast_election env) ids s)) = fetches (trace s) @ ids"
  by (induction ids arbitrary: s) (simp_all add: broadcast_election_fetches)

lemma fold_broadcast_election_broadcasts:
  "broadcasts (trace (fold (broadcast_election env) ids s)) =
     broadcasts (trace s) @ concat (map (broadcast_message env) ids)"
  by (induction ids arbitrary: s) (simp_all add: broadcast_election_broadcasts)

text \<open>The elections one cycle fetches, for any election count.\<close>

lemma cycle_fetches:
  assumes "contract env = Some c" "electionCount c = Inr election_count"
  shows "fetches (trace (broadcast_results_cycle env s)) =
           fetches (trace s) @ py_range 1 (min (election_count + 1) 10)"
  using assms
  by (simp add: broadcast_results_cycle_def record_event_simps fetches_append
      fold_broadcast_election_fetches py_range_def)

lemma cycle_broadcasts:
  assumes "contract env = Some c" "electionCount c = Inr election_count"
  shows "broadcasts (trace (broadcast_results_cycle env s)) =
           broadcasts (trace s) @
             concat (map (broadcast_message env) (py_range 1 (min (election_count + 1) 10)))"
  using assms
  by (simp add: broadcast_results_cycle_def record_event_simps broadcasts_append
      fold_broadcast_election_broadcasts py_range_def)

lemma py_range_1_10: "py_range 1 10 = [1, 2, 3, 4, 5, 6, 7, 8, 9]"
  by (simp add: py_range_def upto.simps)

subsection \<open>The session loop\<close>

text \<open>
  An iteration that finds the handle registered, the election in range and the socket
  writable goes on to the sleep, after one fetch; what it writes, if anything, depends on
  how the fetch ended.
\<close>

lemma iteration_continues:
  assumes reg: "map_of (active_connections s) websocket = Some True"
    and ok: "election_in_range env election_id"
    and wr: "\<forall>m. send_json env websocket m = None"
  shows "\<exists>b. session_iteration env websocket election_id s = (Next, s\<lparr>trace := trace s @ b\<rparr>)
           \<and> fetches b = [election_id] \<and> sleeps b = []"
proof -
  from ok obtain c n where c: "contract env = Some c" "electionCount c = Inr n"
    "1 \<le> election_id" "election_id \<le> n"
    by (auto simp: election_in_range_def split: option.splits sum.splits)
  note k = registered_key[OF reg]
  let ?s1 = "record_event (Fetch election_id) s"
  have sp: "send_personal_message env m websocket ?s1 =
      s\<lparr>trace := trace s @ [Fetch election_id, SendJson websocket m None]\<rparr>" for m
    using reg k wr by (simp add: send_personal_message_def record_event_def)
  have s1: "?s1 = s\<lparr>trace := trace s @ [Fetch election_id]\<rparr>"
    by (simp add: record_event_def)
  show ?thesis
  proof (cases "get_election_results env election_id")
    case (Inr r)
    let ?b = "[Fetch election_id, SendJson websocket (PDict (results_dict r)) None]"
    from Inr have "session_iteration env websocket election_id s =
        (Next, s\<lparr>trace := trace s @ ?b\<rparr>)"
      using c k by (simp add: session_iteration_def Let_def sp)
    then show ?thesis by (intro exI[of _ ?b]) simp
  next
    case (Inl e)
    show ?thesis
    proof (cases "py_in ''underflow or overflow'' (str_exn e)")
      case True
      let ?b = "[Fetch election_id,
                 SendJson websocket (empty_result election_id (now env)) None]"
      from True Inl have "session_iteration env websocket election_id s =
          (Next, s\<lparr>trace := trace s @ ?b\<rparr>)"
        using c k by (simp add: session_iteration_def Let_def sp)
      then show ?thesis by (intro exI[of _ ?b]) simp
    next
      case False
      with Inl have "session_iteration env websocket election_id s =
          (Next, s\<lparr>trace := trace s @ [Fetch election_id]\<rparr>)"
        using c k by (simp add: session_iteration_def Let_def s1)
      then show ?thesis by (intro exI[of _ "[Fetch election_id]"]) simp
    qed
  qed
qed

text \<open>
  Over any number of such iterations the loop is still running, and the trace is one
  block per iteration, each closed by the sleep.
\<close>

lemma loop_continues:
  assumes "\<forall>env \<in> set envs.
             election_in_range env election_id \<and> (\<forall>m. send_json env websocket m = None)"
    and "map_of (active_connections s) websocket = Some True"
  shows "\<exists>blocks. session_loop envs websocket election_id True s =
            (Running, s\<lparr>trace := trace s @ concat (map (\<lambda>b. b @ [Sleep (5 / 2)]) blocks)\<rparr>)
          \<and> length blocks = length envs
          \<and> list_all (\<lambda>b. fetches b = [election_id] \<and> sleeps b = []) blocks"
  using assms
proof (induction envs arbitrary: s)
  case Nil
  show ?case by (intro exI[of _ "[]"]) (simp add: session_loop.simps)
next
  case (Cons env envs)
  from Cons.prems obtain b where b:
    "session_iteration env websocket election_id s = (Next, s\<lparr>trace := trace s @ b\<rparr>)"
    "fetches b = [election_id]" "sleeps b = []"
    using iteration_continues[of s websocket env election_id] by auto
  let ?s2 = "record_event (Sleep (5 / 2)) (s\<lparr>trace := trace s @ b\<rparr>)"
  have reg2: "map_of (active_connections ?s2) websocket = Some True"
    using Cons.prems(2) by (simp add: record_event_def)
  from Cons.IH[OF _ reg2] Cons.prems(1) obtain blocks where bl:
    "session_loop envs websocket election_id True ?s2 =
       (Running, ?s2\<lparr>trace := trace ?s2 @ concat (map (\<lambda>b. b @ [Sleep (5 / 2)]) blocks)\<rparr>)"
    "length blocks = length envs"
    "list_all (\<lambda>b. fetches b = [election_id] \<and> sleeps b = []) blocks"
    by auto
  have "session_loop (env # envs) websocket election_id True s =
      session_loop envs websocket election_id True ?s2"
    by (subst session_loop.simps) (simp add: b(1))
  with bl b show ?case
    by (intro exI[of _ "b # blocks"]) (simp add: record_event_def)
qed

lemma fetches_blocks:
  "list_all (\<lambda>b. fetches b = [i] \<and> sleeps b = []) blocks \<Longrightarrow>
     fetches (concat (map (\<lambda>b. b @ [Sleep d]) blocks)) = replicate (length blocks) i"
  by (induction blocks) (auto simp: fetches_append)

lemma sleeps_blocks:
  "list_all (\<lambda>b. fetches b = [i] \<and> sleeps b = []) blocks \<Longrightarrow>
     sleeps (concat (map (\<lambda>b. b @ [Sleep d]) blocks)) = replicate (length blocks) d"
  by (induction blocks) (auto simp: sleeps_append)

text \<open>
  A subscription to an election outside \<open>[1, count]\<close>, run on the example environment
  with another handle already registered.
\<close>

lemma example_not_found_run:
  "websocket_results None [example_env] 7 3 \<lparr>active_connections = [(4, True)], trace = []\<rparr> =
     (Exited False,
      \<lparr>active_connections = [(4, True)],
       trace = [SendJson 7 (PDict [(''error'', PStr ''Election 3 does not exist''),
                                    (''electionId'', PInt 3)]) None]\<rparr>)"
  by (simp add: websocket_results_def connect_def session_loop.simps session_iteration_def
      send_personal_message_def record_event_def disconnect_def error_msg_not_exist_def
      str_int_def AList.delete_eq example_env_def example_ledger_def)

section \<open>The claims\<close>

text \<open>
  C1, as the code has it. For an election id in \<open>[1, count]\<close> whose record was read and
  built, a failing read of the candidate list never makes the fetcher raise: whatever the
  text of the failure, with or without the words of an empty-collection fault, the fetcher
  returns the election built from the record that was read, with an empty candidate list.
\<close>

theorem candidate_read_failure_gives_empty_snapshot:
  assumes "contract env = Some c"
    and "electionCount c = Inr election_count"
    and "1 \<le> election_id" and "election_id \<le> election_count"
    and "getElection c election_id = Inr election_data"
    and "Election_of election_data = Inr e"
    and "getElectionResults c election_id = Inl err"
  shows "get_election_results env election_id =
           Inr \<lparr>election = e, candidates = [], lastUpdate = now env\<rparr>"
proof -
  have "\<not> (election_id < 1 \<or> election_id > election_count)"
    using assms(3,4) by simp
  then have "get_election_results_try env election_id =
      Inr \<lparr>election = e, candidates = [], lastUpdate = now env\<rparr>"
    using assms(1,2,5,6,7) by (simp add: get_election_results_try_def try_bind_def)
  then show ?thesis
    by (simp add: get_election_results_def)
qed

text \<open>The theorem on the example environment, election 1.\<close>

theorem candidate_read_failure_gives_empty_snapshot_witness:
  "get_election_results example_env 1 =
     Inr \<lparr>election = example_election, candidates = [],
          lastUpdate = Datetime ''2024-05-01T12:00:00''\<rparr>"
  using candidate_read_failure_gives_empty_snapshot
          [of example_env example_ledger 2 1 _ example_election]
  by (simp add: example_env_def example_ledger_def example_Election_of)

text \<open>
  C1 as stated fails: a candidate read that fails with \<^verbatim>\<open>connection refused\<close>, a text
  without the words of the empty-collection fault, does not give the error outcome but
  the same snapshot with no candidate.
\<close>

theorem candidate_read_failure_not_transient_counterexample:
  "\<not> py_in ''underflow or overflow'' ''connection refused''
   \<and> get_election_results
       (example_env\<lparr>contract := Some (example_ledger\<lparr>getElectionResults :=
           (\<lambda>i. Inl (Exception ''connection refused''))\<rparr>)\<rparr>) 1 =
     Inr \<lparr>election = example_election, candidates = [],
          lastUpdate = Datetime ''2024-05-01T12:00:00''\<rparr>
   \<and> get_election_results
       (example_env\<lparr>contract := Some (example_ledger\<lparr>getElectionResults :=
           (\<lambda>i. Inl (Exception ''connection refused''))\<rparr>)\<rparr>) 1 \<noteq>
     Inl (HTTPException 500 ''connection refused'')"
  by (simp add: get_election_results_def get_election_results_try_def try_bind_def
      example_env_def example_ledger_def example_Election_of)

text \<open>
  C2. For an election id outside \<open>[1, count]\<close> the fetcher raises the 404 exception
  \<^verbatim>\<open>Election <id> does not exist\<close>. A session opened on that id makes exactly one
  socket write, of the payload with the keys \<^verbatim>\<open>error\<close> and \<^verbatim>\<open>electionId\<close>, which is
  delivered when the socket takes it; it then leaves the loop with
  \<^verbatim>\<open>connection_alive\<close> false and its handle unregistered, whatever environments would
  have followed.
\<close>

theorem not_found_session_ends_after_one_error:
  assumes "contract env = Some c"
    and "electionCount c = Inr election_count"
    and "election_id < 1 \<or> election_count < election_id"
  shows "get_election_results env election_id =
           Inl (HTTPException 404 (''Election '' @ str_int election_id @ '' does not exist''))
       \<and> websocket_results None (env # envs) websocket election_id s =
           (Exited False,
            s\<lparr>active_connections := AList.delete websocket (active_connections s),
              trace := trace s @
                [SendJson websocket
                   (PDict [(''error'',
                            PStr (''Election '' @ str_int election_id @ '' does not exist'')),
                           (''electionId'', PInt election_id)])
                   (send_json env websocket
                      (PDict [(''error'',
                               PStr (''Election '' @ str_int election_id @ '' does not exist'')),
                              (''electionId'', PInt election_id)]))]\<rparr>)"
proof -
  let ?s0 = "s\<lparr>active_connections := AList.update websocket True (active_connections s)\<rparr>"
  let ?m = "error_msg_not_exist election_id"
  let ?s1 = "send_personal_message env ?m websocket ?s0"
  let ?end = "s\<lparr>active_connections := AList.delete websocket (active_connections s),
                trace := trace s @ [SendJson websocket ?m (send_json env websocket ?m)]\<rparr>"
  have reg: "map_of (active_connections ?s0) websocket = Some True"
    by (simp add: update_conv')
  have key: "websocket \<in> fst ` set (active_connections ?s0)"
    by (simp add: dom_update)
  have "session_iteration env websocket election_id ?s0 = (Break False, ?s1)"
    using assms key by (auto simp: session_iteration_def)
  then have loop: "session_loop (env # envs) websocket election_id True ?s0 = (Exited False, ?s1)"
    by (simp add: session_loop.simps)
  have fin: "disconnect websocket ?s1 = ?end"
  proof (rule state.equality)
    show "active_connections (disconnect websocket ?s1) = active_connections ?end"
      using send_personal_message_registered(2)[OF reg, of env ?m]
      by (simp add: disconnect_eq delete_update_same)
    show "trace (disconnect websocket ?s1) = trace ?end"
      using send_personal_message_registered(1)[OF reg, of env ?m]
      by (simp add: disconnect_trace)
    show "state.more (disconnect websocket ?s1) = state.more ?end"
      by simp
  qed
  have "websocket_results None (env # envs) websocket election_id s =
      (Exited False, disconnect websocket ?s1)"
    unfolding websocket_results_def connect_def using loop by simp
  with fin get_election_results_not_found[OF assms] show ?thesis
    by (simp add: error_msg_not_exist_def)
qed

text \<open>
  The scenario of the specification: two elections, a subscription to election 3, on a
  registry that already holds handle 4.
\<close>

theorem not_found_session_ends_after_one_error_witness:
  "get_election_results example_env 3 = Inl (HTTPException 404 ''Election 3 does not exist'')
   \<and> websocket_results None [example_env] 7 3
       \<lparr>active_connections = [(4, True)], trace = []\<rparr> =
       (Exited False,
        \<lparr>active_connections = [(4, True)],
         trace = [SendJson 7 (PDict [(''error'', PStr ''Election 3 does not exist''),
                                      (''electionId'', PInt 3)]) None]\<rparr>)"
  using not_found_session_ends_after_one_error
          [of example_env example_ledger 2 3 "[]" 7
              "\<lparr>active_connections = [(4, True)], trace = []\<rparr>"]
  by (simp add: example_env_def example_ledger_def str_int_def AList.delete_eq)

text \<open>
  C3, at the input where the code departs from it. With ten elections the bound
  \<^verbatim>\<open>min(election_count + 1, 10)\<close> is 10 and \<^verbatim>\<open>range(1, 10)\<close> stops at 9: the cycle
  fetches elections 1 to 9 and leaves out election 10, although the comment on the loop
  announces a limit of ten elections.
\<close>

theorem cycle_with_ten_elections_fetches_nine:
  "fetches (trace (broadcast_results_cycle
      (example_env\<lparr>contract := Some (example_ledger\<lparr>electionCount := Inr 10\<rparr>)\<rparr>)
      \<lparr>active_connections = [], trace = []\<rparr>)) = [1, 2, 3, 4, 5, 6, 7, 8, 9]"
  using cycle_fetches
          [of "example_env\<lparr>contract := Some (example_ledger\<lparr>electionCount := Inr 10\<rparr>)\<rparr>"
              "example_ledger\<lparr>electionCount := Inr 10\<rparr>" 10
              "\<lparr>active_connections = [], trace = []\<rparr>"]
  by (simp add: example_env_def example_ledger_def py_range_1_10)

text \<open>
  C4. A cycle that reads an election count of 12 fetches the elections 1 to 9, in this
  order and no other, and broadcasts for those of them whose fetch returned: no id above
  9 is fetched or broadcast.
\<close>

theorem cycle_with_twelve_elections_touches_one_to_nine:
  assumes "contract env = Some c"
    and "electionCount c = Inr 12"
  shows "fetches (trace (broadcast_results_cycle env s)) =
           fetches (trace s) @ [1, 2, 3, 4, 5, 6, 7, 8, 9]
       \<and> broadcasts (trace (broadcast_results_cycle env s)) =
           broadcasts (trace s) @
             concat (map (broadcast_message env) [1, 2, 3, 4, 5, 6, 7, 8, 9])"
proof -
  have "py_range 1 (min (12 + 1) 10) = [1, 2, 3, 4, 5, 6, 7, 8, 9]"
    by (simp add: py_range_1_10)
  with cycle_fetches[OF assms, of s] cycle_broadcasts[OF assms, of s]
  show ?thesis by simp
qed

text \<open>
  Twelve elections of which only the first can be read: nine fetches, and one broadcast,
  for election 1.
\<close>

theorem cycle_with_twelve_elections_touches_one_to_nine_witness:
  "fetches (trace (broadcast_results_cycle
      (example_env\<lparr>contract := Some (example_ledger\<lparr>electionCount := Inr 12\<rparr>)\<rparr>)
      \<lparr>active_connections = [(4, True)], trace = []\<rparr>)) = [1, 2, 3, 4, 5, 6, 7, 8, 9]
   \<and> broadcasts (trace (broadcast_results_cycle
      (example_env\<lparr>contract := Some (example_ledger\<lparr>electionCount := Inr 12\<rparr>)\<rparr>)
      \<lparr>active_connections = [(4, True)], trace = []\<rparr>)) =
     [PDict [(''electionId'', PInt 1),
             (''results'',
              PDict [(''election'', Election_dict example_election),
                     (''candidates'', PList []),
                     (''lastUpdate'', PStr ''2024-05-01T12:00:00'')])]]"
proof -
  let ?c = "example_ledger\<lparr>electionCount := Inr 12\<rparr>"
  let ?env = "example_env\<lparr>contract := Some ?c\<rparr>"
  have e: "contract ?env = Some ?c" "electionCount ?c = Inr 12"
    by simp_all
  have f: "get_election_results ?env 1 =
     Inr \<lparr>election = example_election, candidates = [],
          lastUpdate = Datetime ''2024-05-01T12:00:00''\<rparr>"
    using fetch_candidates_fail[OF e, of 1 _ example_election]
    by (simp add: example_env_def example_ledger_def example_Election_of)
  have g: "get_election_results ?env i = Inl (HTTPException 500 ''execution reverted'')"
    if "2 \<le> i" "i \<le> 9" for i
    using that
    by (simp add: get_election_results_def get_election_results_try_def try_bind_def
        example_env_def example_ledger_def)
  have b: "broadcast_message ?env 1 =
     [PDict [(''electionId'', PInt 1),
             (''results'',
              PDict [(''election'', Election_dict example_election),
                     (''candidates'', PList []),
                     (''lastUpdate'', PStr ''2024-05-01T12:00:00'')])]]"
    by (simp add: broadcast_message_def f results_dict_empty)
  have c: "broadcast_message ?env i = []" if "2 \<le> i" "i \<le> 9" for i
    using that by (simp add: broadcast_message_def g)
  from cycle_with_twelve_elections_touches_one_to_nine
         [OF e, of "\<lparr>active_connections = [(4, True)], trace = []\<rparr>"]
  show ?thesis
    by (simp add: b c)
qed

text \<open>
  C5, at an input where the code departs from it. Four handles are registered. The write
  to handle 4 raises, so 4 is collected for removal; while the write to handle 5 is
  awaited, the session of handle 7 ends and unregisters it. The dictionary has then
  changed size under the iteration, and the next step of the \<^verbatim>\<open>for\<close> loop raises
  \<^verbatim>\<open>RuntimeError\<close> out of \<^verbatim>\<open>broadcast\<close>: handle 6, registered when the call started,
  is never written, and handle 4, whose write failed, is still registered, the second loop
  not being reached. The source collects the failed handles and removes them after the
  loop, but it iterates the dictionary itself across the awaited writes, not a copy of
  its keys.
\<close>

theorem broadcast_raises_when_registry_changes:
  "broadcast
     (example_env\<lparr>send_json :=
                    (\<lambda>ws message. if ws = 4 then Some (Exception ''closed'') else None),
                  other_tasks :=
                    (\<lambda>ws message. if ws = 5 then Some (Disconnects 7) else None)\<rparr>)
     (PStr ''tick'')
     \<lparr>active_connections = [(4, True), (5, True), (6, True), (7, True)], trace = []\<rparr> =
   (Some (Exception ''dictionary changed size during iteration''),
    \<lparr>active_connections = [(4, True), (5, True), (6, True)],
     trace = [SendJson 4 (PStr ''tick'') (Some (Exception ''closed'')),
              SendJson 5 (PStr ''tick'') None]\<rparr>)"
  by (simp add: broadcast_def broadcast_loop.simps Let_def record_event_def disconnect_def
      AList.delete_eq example_env_def)

text \<open>
  C6, as the code has it. In a session iteration on a registered, writable handle, for
  an election in range whose record is read and built and whose candidate read raises an
  empty-collection fault, the session fetches once and makes exactly one write: the
  fetcher's snapshot, that is the election fields as read from the contract, an empty
  candidate list and the time of the fetch, with no note. It is not an error payload, and
  the iteration goes on to the sleep, so the next iteration does the same.
\<close>

theorem empty_state_iteration_sends_snapshot:
  assumes "map_of (active_connections s) websocket = Some True"
    and "contract env = Some c"
    and "electionCount c = Inr election_count"
    and "1 \<le> election_id" and "election_id \<le> election_count"
    and "getElection c election_id = Inr election_data"
    and "Election_of election_data = Inr e"
    and "getElectionResults c election_id = Inl err"
    and "py_in ''underflow or overflow'' (str_exn err)"
  shows "fst (session_iteration env websocket election_id s) = Next
       \<and> trace (snd (session_iteration env websocket election_id s)) =
           trace s @
             [Fetch election_id,
              SendJson websocket
                (PDict [(''election'', Election_dict e), (''candidates'', PList []),
                        (''lastUpdate'', PStr (isoformat (now env)))])
                (send_json env websocket
                   (PDict [(''election'', Election_dict e), (''candidates'', PList []),
                           (''lastUpdate'', PStr (isoformat (now env)))]))]"
proof -
  let ?p = "PDict [(''election'', Election_dict e), (''candidates'', PList []),
                   (''lastUpdate'', PStr (isoformat (now env)))]"
  let ?s1 = "record_event (Fetch election_id) s"
  have reg: "map_of (active_connections ?s1) websocket = Some True"
    using assms(1) by (simp add: record_event_simps)
  have "session_iteration env websocket election_id s =
          (Next, send_personal_message env ?p websocket ?s1)"
    using assms(2-5) registered_key[OF assms(1)] fetch_candidates_fail[OF assms(2-8)]
    by (simp add: session_iteration_def Let_def results_dict_empty)
  then show ?thesis
    using send_personal_message_registered(1)[OF reg, of env ?p]
    by (simp add: record_event_simps)
qed

text \<open>The theorem on the example environment, election 1, handle 7.\<close>

theorem empty_state_iteration_sends_snapshot_witness:
  "fst (session_iteration example_env 7 1 \<lparr>active_connections = [(7, True)], trace = []\<rparr>)
     = Next
   \<and> trace (snd (session_iteration example_env 7 1
        \<lparr>active_connections = [(7, True)], trace = []\<rparr>)) =
      [Fetch 1,
       SendJson 7
         (PDict [(''election'', Election_dict example_election), (''candidates'', PList []),
                 (''lastUpdate'', PStr ''2024-05-01T12:00:00'')]) None]"
  using empty_state_iteration_sends_snapshot
          [of "\<lparr>active_connections = [(7, True)], trace = []\<rparr>" 7 example_env
              example_ledger 2 1 _ example_election
              "Exception ''Panic error 0x11: Arithmetic operation results in underflow or overflow.''"]
  by (simp add: example_env_def example_ledger_def example_Election_of)

text \<open>
  C6 as stated fails: on the example environment the session subscribed to election 1
  writes the election as the contract holds it (name \<^verbatim>\<open>Board\<close>, start 100, end 200,
  active), not zeroed fields, and the payload has no \<^verbatim>\<open>info\<close> entry; the placeholder
  of the source, \<open>empty_result\<close>, is not written.
\<close>

theorem empty_state_payload_not_placeholder_counterexample:
  "websocket_results None [example_env] 7 1 \<lparr>active_connections = [], trace = []\<rparr> =
     (Running,
      \<lparr>active_connections = [(7, True)],
       trace = [Fetch 1,
                SendJson 7
                  (PDict [(''election'',
                           PDict [(''id'', PInt 1), (''name'', PStr ''Board''),
                                  (''description'', PStr ''Board election''),
                                  (''startTime'', PInt 100), (''endTime'', PInt 200),
                                  (''isActive'', PBool True), (''creator'', PStr ''0xA1''),
                                  (''totalVotes'', PInt 0), (''candidateCount'', PInt 0),
                                  (''status'', PNone)]),
                          (''candidates'', PList []),
                          (''lastUpdate'', PStr ''2024-05-01T12:00:00'')])
                  None,
                Sleep (5 / 2)]\<rparr>)
   \<and> (7, empty_result 1 (Datetime ''2024-05-01T12:00:00''), None) \<notin>
       set (writes (trace (snd (websocket_results None [example_env] 7 1
              \<lparr>active_connections = [], trace = []\<rparr>))))"
proof -
  have f: "get_election_results example_env 1 =
     Inr \<lparr>election = example_election, candidates = [],
          lastUpdate = Datetime ''2024-05-01T12:00:00''\<rparr>"
    using fetch_candidates_fail[of example_env example_ledger 2 1 _ example_election]
    by (simp add: example_env_def example_ledger_def example_Election_of)
  have l: "electionCount example_ledger = Inr 2"
    by (simp add: example_ledger_def)
  have "websocket_results None [example_env] 7 1 \<lparr>active_connections = [], trace = []\<rparr> =
     (Running,
      \<lparr>active_connections = [(7, True)],
       trace = [Fetch 1,
                SendJson 7
                  (PDict [(''election'', Election_dict example_election),
                          (''candidates'', PList []),
                          (''lastUpdate'', PStr ''2024-05-01T12:00:00'')])
                  None,
                Sleep (5 / 2)]\<rparr>)"
    by (simp add: websocket_results_def connect_def session_loop.simps session_iteration_def
        f l example_env_simps results_dict_empty send_personal_message_def record_event_def)
  then show ?thesis
    by (simp add: Election_dict_def example_election_def empty_result_def)
qed

text \<open>
  C7. Take a session whose connection was accepted and, for any number N, N environments
  in each of which the contract is loaded, the election id lies in \<open>[1, count]\<close> and
  every write to the session's socket succeeds. After these N iterations the session is
  still running; it has fetched exactly N times, always its own election, and slept N
  times, each time for 2.5; and its trace is N blocks, one per iteration, each holding one
  fetch and no sleep and each followed by one sleep of 2.5.
\<close>

theorem healthy_session_keeps_polling:
  assumes "\<forall>env \<in> set envs.
             election_in_range env election_id \<and> (\<forall>m. send_json env websocket m = None)"
  shows "fst (websocket_results None envs websocket election_id s) = Running
       \<and> fetches (trace (snd (websocket_results None envs websocket election_id s))) =
           fetches (trace s) @ replicate (length envs) election_id
       \<and> sleeps (trace (snd (websocket_results None envs websocket election_id s))) =
           sleeps (trace s) @ replicate (length envs) (5 / 2)
       \<and> (\<exists>blocks. length blocks = length envs
            \<and> list_all (\<lambda>b. fetches b = [election_id] \<and> sleeps b = []) blocks
            \<and> trace (snd (websocket_results None envs websocket election_id s)) =
                trace s @ concat (map (\<lambda>b. b @ [Sleep (5 / 2)]) blocks))"
proof -
  let ?s0 = "s\<lparr>active_connections := AList.update websocket True (active_connections s)\<rparr>"
  have reg: "map_of (active_connections ?s0) websocket = Some True"
    by (simp add: update_conv')
  from loop_continues[OF assms reg] obtain blocks where bl:
    "session_loop envs websocket election_id True ?s0 =
       (Running, ?s0\<lparr>trace := trace ?s0 @ concat (map (\<lambda>b. b @ [Sleep (5 / 2)]) blocks)\<rparr>)"
    "length blocks = length envs"
    "list_all (\<lambda>b. fetches b = [election_id] \<and> sleeps b = []) blocks"
    by auto
  have run: "websocket_results None envs websocket election_id s =
      (Running, ?s0\<lparr>trace := trace ?s0 @ concat (map (\<lambda>b. b @ [Sleep (5 / 2)]) blocks)\<rparr>)"
    by (simp add: websocket_results_def connect_def bl(1))
  show ?thesis
    unfolding run using bl(2,3) fetches_blocks[OF bl(3)] sleeps_blocks[OF bl(3)]
    by (auto simp: fetches_append sleeps_append)
qed

text \<open>Three iterations on the example environment, election 1.\<close>

theorem healthy_session_keeps_polling_witness:
  "fst (websocket_results None [example_env, example_env, example_env] 7 1
          \<lparr>active_connections = [], trace = []\<rparr>) = Running
   \<and> fetches (trace (snd (websocket_results None [example_env, example_env, example_env] 7 1
          \<lparr>active_connections = [], trace = []\<rparr>))) = [1, 1, 1]
   \<and> sleeps (trace (snd (websocket_results None [example_env, example_env, example_env] 7 1
          \<lparr>active_connections = [], trace = []\<rparr>))) = [5 / 2, 5 / 2, 5 / 2]"
  using healthy_session_keeps_polling
          [of "[example_env, example_env, example_env]" 1 7
              "\<lparr>active_connections = [], trace = []\<rparr>"]
  by (simp add: election_in_range_def example_env_def example_ledger_def numeral_3_eq_3)

text \<open>
  C8. Whenever the session loop has been left, by whichever path (the handle found
  missing after a failed write, an exception of any class from the count read, or an
  election id out of range), the handle is not in the registry once the endpoint is done;
  and unregistering is idempotent: \<^verbatim>\<open>disconnect\<close> on a handle that is absent returns the
  state as it was, and it has no way to raise.
\<close>

theorem session_exit_unregisters_handle:
  assumes "websocket_results accept envs websocket election_id s = (Exited alive, s')"
  shows "websocket \<notin> fst ` set (active_connections s')
       \<and> disconnect websocket s' = s'
       \<and> (\<forall>t. websocket \<notin> fst ` set (active_connections t) \<longrightarrow> disconnect websocket t = t)"
proof -
  from assms obtain s1 where "s' = disconnect websocket s1"
    by (auto simp: websocket_results_def split: sum.splits prod.splits outcome.splits)
  then have "websocket \<notin> fst ` set (active_connections s')"
    by (simp add: disconnect_keys)
  then show ?thesis
    by (simp add: disconnect_absent)
qed

text \<open>
  The session on election 3 of the example environment is left through the not-found
  path; handle 7 is gone afterwards and handle 4 stays.
\<close>

theorem session_exit_unregisters_handle_witness:
  "websocket_results None [example_env] 7 3 \<lparr>active_connections = [(4, True)], trace = []\<rparr> =
     (Exited False,
      \<lparr>active_connections = [(4, True)],
       trace = [SendJson 7 (PDict [(''error'', PStr ''Election 3 does not exist''),
                                    (''electionId'', PInt 3)]) None]\<rparr>)
   \<and> 7 \<notin> fst ` set (active_connections
        \<lparr>active_connections = [(4, True)],
         trace = [SendJson 7 (PDict [(''error'', PStr ''Election 3 does not exist''),
                                      (''electionId'', PInt 3)]) None]\<rparr>)"
  using session_exit_unregisters_handle[OF example_not_found_run] example_not_found_run
  by simp




text \<open>
  C10. \<^verbatim>\<open>send_personal_message\<close> to a handle that is not registered does nothing: the
  state it returns is the state it got, so the registry is unchanged and the trace has no
  new write; the function has no way to raise.
\<close>

theorem send_personal_message_unregistered_noop:
  assumes "websocket \<notin> fst ` set (active_connections s)"
  shows "send_personal_message env message websocket s = s"
  using assms unfolding send_personal_message_def by simp

text \<open>Handle 7 is not in a registry that holds handle 4 only.\<close>

theorem send_personal_message_unregistered_noop_witness:
  "send_personal_message example_env (PStr ''hello'') 7
     \<lparr>active_connections = [(4, True)], trace = []\<rparr> =
   \<lparr>active_connections = [(4, True)], trace = []\<rparr>"
  using send_personal_message_unregistered_noop
          [of 7 "\<lparr>active_connections = [(4, True)], trace = []\<rparr>" example_env "PStr ''hello''"]
  by simp

end
